theory Spec2Isabelle
  imports Main
begin

section \<open>Data model of the tool orchestrator\<close>

text \<open>
  The development embeds the class \<open>ToolOrchestrator\<close> of
  \<open>packages/core/src/server/tools/ToolOrchestrator.ts\<close>. The object's private fields
  form a record that every method takes and returns; a thrown \<open>Error\<close> is the left
  summand of the method's result, returned together with the state as it was when the
  exception left the method. Calls into the two collaborators of the class (the
  \<open>StreamingEventService\<close> and the \<open>CoreToolScheduler\<close>) and into the registered
  completion callback are appended, in program order, to a log kept in the state.
  The two scheduler operations that the orchestrator awaits are parameters of its methods
  (see \<open>coreToolSchedulerCode\<close> below): the awaited call runs on the state the method has
  reached, and its outcome is the outcome of the method.
  The \<open>console.log\<close> statements of the source are diagnostics and are left out.
\<close>

type_synonym callId = string

text \<open>An \<open>express.Response\<close> and an \<open>AbortSignal\<close> are opaque objects, named by a number.\<close>

type_synonym response = nat
type_synonym abortSignal = nat

text \<open>
  The \<open>args\<close> of a request are an untyped key-value object that may be absent (the source
  reads it with \<open>args?.command\<close>).
\<close>

datatype jsval = JString string | JNumber int | JBool bool | JNull

type_synonym toolArgs = "(string \<times> jsval) list option"

record toolCallRequestInfo =
  callId :: callId
  name :: string
  args :: toolArgs

text \<open>
  Modelled from the spec: the declaration of \<open>ToolCall\<close> lives in
  \<open>core/coreToolScheduler\<close>, which is not among the sources. The status values, the
  optional confirmation details with their accept continuation, the result and the output
  chunks are the attributes the specification lists for a tool call; the orchestrator
  itself reads only \<open>request\<close>, \<open>status\<close> and \<open>confirmationDetails.onConfirm\<close>.
\<close>

datatype toolStatus =
  validating | awaiting_approval | executing | success | error | cancelled

record toolCallConfirmationDetails =
  onConfirm :: nat

datatype toolResult = Output string | Failure string

record toolCall =
  request :: toolCallRequestInfo
  status :: toolStatus
  confirmationDetails :: "toolCallConfirmationDetails option"
  result :: "toolResult option"
  outputChunks :: "string list"

text \<open>
  The scheduler is reached through its \<open>toolCalls\<close> array only
  (\<open>(this.toolScheduler as any).toolCalls\<close>).
\<close>

record coreToolScheduler =
  toolCalls :: "toolCall list"

text \<open>
  The log of calls to collaborators. The first four constructors are the methods of the
  \<open>StreamingEventService\<close>, each with the response it writes to; the next two are the
  operations of the scheduler the orchestrator delegates to; the last is the invocation of
  the registered completion callback.
\<close>

datatype effect =
  SendToolCallEvent response callId string toolArgs
  | SendToolConfirmationEvent response callId string "string option" toolArgs
  | SendToolExecutionEvent response callId string string
  | SendToolResultEvent response toolCall
  | SchedulerSchedule "toolCallRequestInfo list" abortSignal
  | SchedulerHandleConfirmationResponse callId nat string abortSignal
  | InvokeToolCompletionCallback nat "toolCall list"

datatype jsError = Error string | TypeError string

record toolOrchestrator =
  toolScheduler :: "coreToolScheduler option"
  currentResponse :: "response option"
  toolCompletionCallback :: "nat option"
  sentConfirmationEvents :: "callId set"
  effects :: "effect list"

text \<open>
  The code of \<open>CoreToolScheduler\<close> is not among the sources. What its two operations do
  when the orchestrator awaits them is therefore a parameter: each takes its arguments and
  the state of the orchestrator at the call, and returns its outcome (a rejection is the
  left summand) with the state it leaves behind, which covers the callbacks it fires into
  the orchestrator while it runs and the changes to its own tool calls. The accept
  continuation \<open>onConfirm\<close> is named by a number.
\<close>

record coreToolSchedulerCode =
  schedule ::
    "toolCallRequestInfo list \<Rightarrow> abortSignal \<Rightarrow> toolOrchestrator
       \<Rightarrow> (jsError + unit) \<times> toolOrchestrator"
  handleConfirmationResponse ::
    "callId \<Rightarrow> nat \<Rightarrow> string \<Rightarrow> abortSignal \<Rightarrow> toolOrchestrator
       \<Rightarrow> (jsError + unit) \<times> toolOrchestrator"

text \<open>The state after the constructor: the field initialisers of the class.\<close>

definition newToolOrchestrator :: toolOrchestrator where
  "newToolOrchestrator =
     \<lparr>toolScheduler = None, currentResponse = None, toolCompletionCallback = None,
      sentConfirmationEvents = {}, effects = []\<rparr>"

section \<open>The methods\<close>

text \<open>
  \<open>initializeScheduler\<close> constructs a fresh scheduler. Modelled from the spec: the
  constructor of \<open>CoreToolScheduler\<close> is not among the sources; a new scheduler holds no
  tool call. The lookup of the tool registry that precedes the construction is taken to
  succeed.
\<close>

definition initializeScheduler :: "toolOrchestrator \<Rightarrow> toolOrchestrator" where
  "initializeScheduler \<sigma> = \<sigma>\<lparr>toolScheduler := Some \<lparr>toolCalls = []\<rparr>\<rparr>"

definition setToolCompletionCallback :: "nat \<Rightarrow> toolOrchestrator \<Rightarrow> toolOrchestrator" where
  "setToolCompletionCallback callback \<sigma> = \<sigma>\<lparr>toolCompletionCallback := Some callback\<rparr>"

definition emit :: "effect \<Rightarrow> toolOrchestrator \<Rightarrow> toolOrchestrator" where
  "emit e \<sigma> = \<sigma>\<lparr>effects := effects \<sigma> @ [e]\<rparr>"

text \<open>The messages of the three errors the class throws itself.\<close>

definition notInitialized :: jsError where
  "notInitialized = Error ''Tool scheduler not initialized''"

definition notFoundOrNotAwaiting :: jsError where
  "notFoundOrNotAwaiting = Error ''Tool call not found or not awaiting approval''"

fun join :: "string \<Rightarrow> string list \<Rightarrow> string" where
  "join sep [] = []"
| "join sep [x] = x"
| "join sep (x # y # ys) = x @ sep @ join sep (y # ys)"

definition invalidOutcome :: "string list \<Rightarrow> string \<Rightarrow> jsError" where
  "invalidOutcome validOutcomes outcome =
     Error (''Invalid outcome value: '' @ outcome @ ''. Must be one of: ''
            @ join '', '' validOutcomes)"

text \<open>The loop \<open>for (const request of requests)\<close> of \<open>scheduleToolCalls\<close>.\<close>

primrec sendToolCallEvents ::
  "response \<Rightarrow> toolCallRequestInfo list \<Rightarrow> toolOrchestrator \<Rightarrow> toolOrchestrator" where
  "sendToolCallEvents res [] \<sigma> = \<sigma>"
| "sendToolCallEvents res (req # reqs) \<sigma> =
     sendToolCallEvents res reqs
       (emit (SendToolCallEvent res (callId req) (name req) (args req)) \<sigma>)"

text \<open>
  \<open>scheduleToolCalls\<close>: the guard; the assignment \<open>this.currentResponse = response\<close>; the
  loop; and last \<open>await this.toolScheduler.schedule(requests, abortSignal)\<close>, which runs on
  the state reached so far and whose outcome is the outcome of the method.
\<close>

definition scheduleToolCalls ::
  "coreToolSchedulerCode \<Rightarrow> toolCallRequestInfo list \<Rightarrow> abortSignal \<Rightarrow> response
     \<Rightarrow> toolOrchestrator \<Rightarrow> (jsError + unit) \<times> toolOrchestrator" where
  "scheduleToolCalls code requests sig res \<sigma> =
     (case toolScheduler \<sigma> of
        None \<Rightarrow> (Inl notInitialized, \<sigma>)
      | Some sch \<Rightarrow>
          schedule code requests sig
            (emit (SchedulerSchedule requests sig)
               (sendToolCallEvents res requests (\<sigma>\<lparr>currentResponse := Some res\<rparr>))))"

text \<open>
  The states that \<open>scheduleToolCalls\<close> passes through before it awaits the scheduler, in
  program order: the state after the assignment, then the state after each round of the
  loop. There is none when the guard throws.
\<close>

primrec sendToolCallEventsStates ::
  "response \<Rightarrow> toolCallRequestInfo list \<Rightarrow> toolOrchestrator \<Rightarrow> toolOrchestrator list" where
  "sendToolCallEventsStates res [] \<sigma> = []"
| "sendToolCallEventsStates res (req # reqs) \<sigma> =
     emit (SendToolCallEvent res (callId req) (name req) (args req)) \<sigma>
       # sendToolCallEventsStates res reqs
           (emit (SendToolCallEvent res (callId req) (name req) (args req)) \<sigma>)"

definition scheduleToolCallsStates ::
  "toolCallRequestInfo list \<Rightarrow> response \<Rightarrow> toolOrchestrator \<Rightarrow> toolOrchestrator list" where
  "scheduleToolCallsStates requests res \<sigma> =
     (case toolScheduler \<sigma> of
        None \<Rightarrow> []
      | Some sch \<Rightarrow>
          \<sigma>\<lparr>currentResponse := Some res\<rparr>
            # sendToolCallEventsStates res requests (\<sigma>\<lparr>currentResponse := Some res\<rparr>))"

definition scheduleToolCall ::
  "coreToolSchedulerCode \<Rightarrow> toolCallRequestInfo \<Rightarrow> abortSignal \<Rightarrow> response
     \<Rightarrow> toolOrchestrator \<Rightarrow> (jsError + unit) \<times> toolOrchestrator" where
  "scheduleToolCall code req sig res \<sigma> = scheduleToolCalls code [req] sig res \<sigma>"

text \<open>
  \<open>handleToolConfirmation\<close>. The enumeration \<open>ToolConfirmationOutcome\<close> is declared in
  \<open>tools/tools\<close>, which is not among the sources: its values
  (\<open>Object.values(ToolConfirmationOutcome)\<close>) are the parameter \<open>validOutcomes\<close>. The
  outcome arrives from a request body, so it is any string. Reading \<open>onConfirm\<close> of absent
  confirmation details raises a \<open>TypeError\<close>. The last statement awaits the scheduler's
  \<open>handleConfirmationResponse\<close>, whose outcome is the outcome of the method.
\<close>

definition handleToolConfirmation ::
  "coreToolSchedulerCode \<Rightarrow> string list \<Rightarrow> callId \<Rightarrow> string \<Rightarrow> abortSignal
     \<Rightarrow> toolOrchestrator \<Rightarrow> (jsError + unit) \<times> toolOrchestrator" where
  "handleToolConfirmation code validOutcomes cid outcome sig \<sigma> =
     (case toolScheduler \<sigma> of
        None \<Rightarrow> (Inl notInitialized, \<sigma>)
      | Some sch \<Rightarrow>
          if outcome \<notin> set validOutcomes
          then (Inl (invalidOutcome validOutcomes outcome), \<sigma>)
          else
            (case List.find (\<lambda>tc. callId (request tc) = cid) (toolCalls sch) of
               None \<Rightarrow> (Inl notFoundOrNotAwaiting, \<sigma>)
             | Some tc \<Rightarrow>
                 if status tc \<noteq> awaiting_approval
                 then (Inl notFoundOrNotAwaiting, \<sigma>)
                 else
                   (case confirmationDetails tc of
                      None \<Rightarrow> (Inl (TypeError ''onConfirm''), \<sigma>)
                    | Some details \<Rightarrow>
                        handleConfirmationResponse code cid (onConfirm details) outcome sig
                          (emit (SchedulerHandleConfirmationResponse
                                   cid (onConfirm details) outcome sig) \<sigma>))))"

definition clearCurrentResponse :: "toolOrchestrator \<Rightarrow> toolOrchestrator" where
  "clearCurrentResponse \<sigma> = \<sigma>\<lparr>currentResponse := None, sentConfirmationEvents := {}\<rparr>"

text \<open>
  The loop \<open>for (const toolCall of toolCalls)\<close> of \<open>cancelAllOperations\<close>. The source
  runs it when a scheduler exists and its \<open>toolCalls\<close> is an array, which it is in every
  state of this model. The tool calls are objects of the scheduler, updated in place.
\<close>

primrec cancelToolCalls :: "toolCall list \<Rightarrow> toolCall list" where
  "cancelToolCalls [] = []"
| "cancelToolCalls (tc # tcs) =
     (if status tc = awaiting_approval \<or> status tc = executing
      then tc\<lparr>status := cancelled\<rparr> else tc) # cancelToolCalls tcs"

definition cancelAllOperations :: "toolOrchestrator \<Rightarrow> toolOrchestrator" where
  "cancelAllOperations \<sigma> =
     clearCurrentResponse
       (case toolScheduler \<sigma> of
          None \<Rightarrow> \<sigma>
        | Some sch \<Rightarrow>
            \<sigma>\<lparr>toolScheduler := Some (sch\<lparr>toolCalls := cancelToolCalls (toolCalls sch)\<rparr>)\<rparr>)"

text \<open>The loop of \<open>handleAllToolCallsComplete\<close>, run when a response is current.\<close>

primrec sendToolResultEvents ::
  "response \<Rightarrow> toolCall list \<Rightarrow> toolOrchestrator \<Rightarrow> toolOrchestrator" where
  "sendToolResultEvents res [] \<sigma> = \<sigma>"
| "sendToolResultEvents res (tc # tcs) \<sigma> =
     sendToolResultEvents res tcs (emit (SendToolResultEvent res tc) \<sigma>)"

definition handleAllToolCallsComplete ::
  "toolCall list \<Rightarrow> toolOrchestrator \<Rightarrow> toolOrchestrator" where
  "handleAllToolCallsComplete completedCalls \<sigma> =
     (let \<sigma>1 = (case currentResponse \<sigma> of
                   None \<Rightarrow> \<sigma>
                 | Some res \<Rightarrow> sendToolResultEvents res completedCalls \<sigma>)
      in case toolCompletionCallback \<sigma>1 of
           None \<Rightarrow> \<sigma>1
         | Some callback \<Rightarrow> emit (InvokeToolCompletionCallback callback completedCalls) \<sigma>1)"

text \<open>
  The texts of the progress messages are Chinese in the source; they are given here as
  their UTF-8 bytes: "executing " (followed by the tool name and three dots),
  "tool call cancelled: " and "tool call failed: " (each followed by the tool name).
\<close>

definition msgExecuting :: "string \<Rightarrow> string" where
  "msgExecuting toolName =
     [CHR 0xE6, CHR 0xAD, CHR 0xA3, CHR 0xE5, CHR 0x9C, CHR 0xA8, CHR 0xE6, CHR 0x89,
      CHR 0xA7, CHR 0xE8, CHR 0xA1, CHR 0x8C, CHR 0x20] @ toolName @ ''...''"

definition msgCancelled :: "string \<Rightarrow> string" where
  "msgCancelled toolName =
     [CHR 0xE5, CHR 0xB7, CHR 0xA5, CHR 0xE5, CHR 0x85, CHR 0xB7, CHR 0xE8, CHR 0xB0,
      CHR 0x83, CHR 0xE7, CHR 0x94, CHR 0xA8, CHR 0xE5, CHR 0xB7, CHR 0xB2, CHR 0xE5,
      CHR 0x8F, CHR 0x96, CHR 0xE6, CHR 0xB6, CHR 0x88, CHR 0x3A, CHR 0x20] @ toolName"

definition msgFailed :: "string \<Rightarrow> string" where
  "msgFailed toolName =
     [CHR 0xE5, CHR 0xB7, CHR 0xA5, CHR 0xE5, CHR 0x85, CHR 0xB7, CHR 0xE8, CHR 0xB0,
      CHR 0x83, CHR 0xE7, CHR 0x94, CHR 0xA8, CHR 0xE5, CHR 0xA4, CHR 0xB1, CHR 0xE8,
      CHR 0xB4, CHR 0xA5, CHR 0x3A, CHR 0x20] @ toolName"

text \<open>\<open>typeof args?.command === 'string' ? args.command : undefined\<close>\<close>

definition commandOf :: "toolArgs \<Rightarrow> string option" where
  "commandOf a =
     (case a of
        None \<Rightarrow> None
      | Some kvs \<Rightarrow>
          (case map_of kvs ''command'' of Some (JString s) \<Rightarrow> Some s | _ \<Rightarrow> None))"

text \<open>The body of the loop of \<open>handleToolCallsUpdate\<close>, for the current response \<open>res\<close>.\<close>

definition updateToolCall ::
  "response \<Rightarrow> toolCall \<Rightarrow> toolOrchestrator \<Rightarrow> toolOrchestrator" where
  "updateToolCall res tc \<sigma> =
     (if status tc = awaiting_approval then
        (if callId (request tc) \<notin> sentConfirmationEvents \<sigma>
         then (emit (SendToolConfirmationEvent res (callId (request tc)) (name (request tc))
                       (commandOf (args (request tc))) (args (request tc))) \<sigma>)
                \<lparr>sentConfirmationEvents :=
                   insert (callId (request tc)) (sentConfirmationEvents \<sigma>)\<rparr>
         else \<sigma>)
      else if status tc = executing then
        emit (SendToolExecutionEvent res (callId (request tc)) ''executing''
                (msgExecuting (name (request tc)))) \<sigma>
      else if status tc = cancelled then
        emit (SendToolExecutionEvent res (callId (request tc)) ''failed''
                (msgCancelled (name (request tc)))) \<sigma>
      else if status tc = error then
        emit (SendToolExecutionEvent res (callId (request tc)) ''failed''
                (msgFailed (name (request tc)))) \<sigma>
      else \<sigma>)"

primrec updateToolCalls ::
  "response \<Rightarrow> toolCall list \<Rightarrow> toolOrchestrator \<Rightarrow> toolOrchestrator" where
  "updateToolCalls res [] \<sigma> = \<sigma>"
| "updateToolCalls res (tc # tcs) \<sigma> = updateToolCalls res tcs (updateToolCall res tc \<sigma>)"

definition handleToolCallsUpdate :: "toolCall list \<Rightarrow> toolOrchestrator \<Rightarrow> toolOrchestrator" where
  "handleToolCallsUpdate tcs \<sigma> =
     (case currentResponse \<sigma> of
        None \<Rightarrow> \<sigma>
      | Some res \<Rightarrow> updateToolCalls res tcs \<sigma>)"

definition handleOutputUpdate :: "callId \<Rightarrow> string \<Rightarrow> toolOrchestrator \<Rightarrow> toolOrchestrator" where
  "handleOutputUpdate cid outputChunk \<sigma> =
     (case currentResponse \<sigma> of
        None \<Rightarrow> \<sigma>
      | Some res \<Rightarrow> emit (SendToolExecutionEvent res cid ''executing'' outputChunk) \<sigma>)"

section \<open>Histories of method calls\<close>

text \<open>
  The orchestrator is driven from two sides: its public methods are called by the service
  above it, and its three handlers are called back by the scheduler. A history is a list
  of such calls, applied in order; a thrown error ends the call that threw it and leaves
  the state as that call left it. In a history the scheduler's operations return at once
  (\<open>detachedScheduler\<close>): no statement of the orchestrator follows an awaited operation, so
  the callbacks the scheduler fires, during the operation or later, are the calls that
  come next in the history. Between two calls the scheduler may replace its own list of
  tool calls, which is the step \<open>SchedulerSetsToolCalls\<close>.
\<close>

definition detachedScheduler :: coreToolSchedulerCode where
  "detachedScheduler =
     \<lparr>schedule = (\<lambda>requests sig \<sigma>. (Inr (), \<sigma>)),
      handleConfirmationResponse = (\<lambda>cid continuation outcome sig \<sigma>. (Inr (), \<sigma>))\<rparr>"

datatype action =
  InitializeScheduler
  | SetToolCompletionCallback nat
  | ScheduleToolCall toolCallRequestInfo abortSignal response
  | ScheduleToolCalls "toolCallRequestInfo list" abortSignal response
  | HandleToolConfirmation callId string abortSignal
  | ClearCurrentResponse
  | CancelAllOperations
  | HandleAllToolCallsComplete "toolCall list"
  | HandleToolCallsUpdate "toolCall list"
  | HandleOutputUpdate callId string
  | SchedulerSetsToolCalls "toolCall list"

fun step :: "string list \<Rightarrow> action \<Rightarrow> toolOrchestrator \<Rightarrow> toolOrchestrator" where
  "step vo InitializeScheduler \<sigma> = initializeScheduler \<sigma>"
| "step vo (SetToolCompletionCallback cb) \<sigma> = setToolCompletionCallback cb \<sigma>"
| "step vo (ScheduleToolCall req sig res) \<sigma> =
     snd (scheduleToolCall detachedScheduler req sig res \<sigma>)"
| "step vo (ScheduleToolCalls reqs sig res) \<sigma> =
     snd (scheduleToolCalls detachedScheduler reqs sig res \<sigma>)"
| "step vo (HandleToolConfirmation cid outcome sig) \<sigma> =
     snd (handleToolConfirmation detachedScheduler vo cid outcome sig \<sigma>)"
| "step vo ClearCurrentResponse \<sigma> = clearCurrentResponse \<sigma>"
| "step vo CancelAllOperations \<sigma> = cancelAllOperations \<sigma>"
| "step vo (HandleAllToolCallsComplete tcs) \<sigma> = handleAllToolCallsComplete tcs \<sigma>"
| "step vo (HandleToolCallsUpdate tcs) \<sigma> = handleToolCallsUpdate tcs \<sigma>"
| "step vo (HandleOutputUpdate cid chunk) \<sigma> = handleOutputUpdate cid chunk \<sigma>"
| "step vo (SchedulerSetsToolCalls tcs) \<sigma> =
     \<sigma>\<lparr>toolScheduler := map_option (\<lambda>sch. sch\<lparr>toolCalls := tcs\<rparr>) (toolScheduler \<sigma>)\<rparr>"

primrec run :: "string list \<Rightarrow> action list \<Rightarrow> toolOrchestrator \<Rightarrow> toolOrchestrator" where
  "run vo [] \<sigma> = \<sigma>"
| "run vo (a # as) \<sigma> = run vo as (step vo a \<sigma>)"

text \<open>The calls that release the current response.\<close>

fun releases :: "action \<Rightarrow> bool" where
  "releases ClearCurrentResponse = True"
| "releases CancelAllOperations = True"
| "releases _ = False"

section \<open>Observations\<close>

text \<open>The scheduler's live calls; there are none while no scheduler exists.\<close>

definition liveCalls :: "toolOrchestrator \<Rightarrow> toolCall list" where
  "liveCalls \<sigma> = (case toolScheduler \<sigma> of None \<Rightarrow> [] | Some sch \<Rightarrow> toolCalls sch)"

text \<open>The call ids that an update callback reports as awaiting approval.\<close>

definition awaitingIds :: "toolCall list \<Rightarrow> callId list" where
  "awaitingIds tcs =
     map (\<lambda>tc. callId (request tc)) (filter (\<lambda>tc. status tc = awaiting_approval) tcs)"

text \<open>How many confirmation events for a call id were written to a response so far.\<close>

fun isConfirmationFor :: "response \<Rightarrow> callId \<Rightarrow> effect \<Rightarrow> bool" where
  "isConfirmationFor res cid (SendToolConfirmationEvent res' cid' _ _ _) =
     (res' = res \<and> cid' = cid)"
| "isConfirmationFor res cid _ = False"

definition confirmationCount :: "response \<Rightarrow> callId \<Rightarrow> toolOrchestrator \<Rightarrow> nat" where
  "confirmationCount res cid \<sigma> = length (filter (isConfirmationFor res cid) (effects \<sigma>))"

fun isResultEvent :: "effect \<Rightarrow> bool" where
  "isResultEvent (SendToolResultEvent _ _) = True"
| "isResultEvent _ = False"

text \<open>The events written to a response, as opposed to calls to the scheduler or the callback.\<close>

fun isStreamEvent :: "effect \<Rightarrow> bool" where
  "isStreamEvent (SchedulerSchedule _ _) = False"
| "isStreamEvent (SchedulerHandleConfirmationResponse _ _ _ _) = False"
| "isStreamEvent (InvokeToolCompletionCallback _ _) = False"
| "isStreamEvent _ = True"

fun isBatchCompletion :: "action \<Rightarrow> bool" where
  "isBatchCompletion (HandleAllToolCallsComplete _) = True"
| "isBatchCompletion _ = False"

section \<open>The scenario of the specification\<close>

text \<open>
  Modelled from the spec: the four confirmation outcomes it names, and the two requests of
  its scenario, \<open>{callId: "a", name: "list_dir"}\<close> and
  \<open>{callId: "b", name: "exec", args: {command: "rm -rf /"}}\<close>. A tool call for a request
  carries confirmation details exactly while it awaits approval.
\<close>

definition specOutcomes :: "string list" where
  "specOutcomes = [''proceedOnce'', ''proceedAlways'', ''modifyWithEditor'', ''cancel'']"

definition requestA :: toolCallRequestInfo where
  "requestA = \<lparr>callId = ''a'', name = ''list_dir'', args = None\<rparr>"

definition requestB :: toolCallRequestInfo where
  "requestB =
     \<lparr>callId = ''b'', name = ''exec'', args = Some [(''command'', JString ''rm -rf /'')]\<rparr>"

definition toolCallOf :: "toolCallRequestInfo \<Rightarrow> toolStatus \<Rightarrow> toolCall" where
  "toolCallOf req st =
     \<lparr>request = req, status = st,
      confirmationDetails =
        (if st = awaiting_approval then Some \<lparr>onConfirm = 0\<rparr> else None),
      result = None, outputChunks = []\<rparr>"

text \<open>An orchestrator whose scheduler holds the given calls, with no response current.\<close>

definition orchestratorWith :: "toolCall list \<Rightarrow> toolOrchestrator" where
  "orchestratorWith tcs = newToolOrchestrator\<lparr>toolScheduler := Some \<lparr>toolCalls = tcs\<rparr>\<rparr>"

text \<open>
  The state of the scenario while \<open>a\<close> executes and \<open>b\<close> awaits approval: response 1 is
  current and the confirmation event for \<open>b\<close> has been recorded as sent.
\<close>

definition scenarioCalls :: "toolCall list" where
  "scenarioCalls = [toolCallOf requestA executing, toolCallOf requestB awaiting_approval]"

definition scenarioOrchestrator :: toolOrchestrator where
  "scenarioOrchestrator =
     (orchestratorWith scenarioCalls)\<lparr>currentResponse := Some 1, sentConfirmationEvents := {''b''}\<rparr>"

text \<open>
  Modelled from the spec: two schedulers. The first fails \<open>schedule\<close> as the specification
  says the scheduler does when the tool registry is unavailable. The second takes every
  request of the batch to \<open>awaiting_approval\<close> and fires the update callback with the batch
  while \<open>schedule\<close> runs.
\<close>

definition rejectingScheduler :: coreToolSchedulerCode where
  "rejectingScheduler =
     \<lparr>schedule = (\<lambda>requests sig \<sigma>. (Inl (Error ''tool registry unavailable''), \<sigma>)),
      handleConfirmationResponse = (\<lambda>cid continuation outcome sig \<sigma>. (Inr (), \<sigma>))\<rparr>"

definition approvalScheduler :: coreToolSchedulerCode where
  "approvalScheduler =
     \<lparr>schedule =
        (\<lambda>requests sig \<sigma>.
           (Inr (),
            handleToolCallsUpdate (map (\<lambda>req. toolCallOf req awaiting_approval) requests)
              (\<sigma>\<lparr>toolScheduler :=
                   Some \<lparr>toolCalls = map (\<lambda>req. toolCallOf req awaiting_approval) requests\<rparr>\<rparr>))),
      handleConfirmationResponse = (\<lambda>cid continuation outcome sig \<sigma>. (Inr (), \<sigma>))\<rparr>"

section \<open>Basic facts\<close>

lemmas scenario_defs =
  scenarioOrchestrator_def scenarioCalls_def orchestratorWith_def newToolOrchestrator_def
  toolCallOf_def requestA_def requestB_def specOutcomes_def


lemma emit_simps [simp]:
  "effects (emit e \<sigma>) = effects \<sigma> @ [e]"
  "toolScheduler (emit e \<sigma>) = toolScheduler \<sigma>"
  "currentResponse (emit e \<sigma>) = currentResponse \<sigma>"
  "toolCompletionCallback (emit e \<sigma>) = toolCompletionCallback \<sigma>"
  "sentConfirmationEvents (emit e \<sigma>) = sentConfirmationEvents \<sigma>"
  by (simp_all add: emit_def)

text \<open>The three loops in closed form.\<close>

lemma sendToolCallEvents_eq:
  "sendToolCallEvents res reqs \<sigma> =
     \<sigma>\<lparr>effects := effects \<sigma> @
          map (\<lambda>req. SendToolCallEvent res (callId req) (name req) (args req)) reqs\<rparr>"
  by (induction reqs arbitrary: \<sigma>) (simp_all add: emit_def)

lemma sendToolCallEventsStates_length [simp]:
  "length (sendToolCallEventsStates res reqs \<sigma>) = length reqs"
  by (induction reqs arbitrary: \<sigma>) simp_all

lemma sendToolCallEventsStates_nth:
  "k < length reqs \<Longrightarrow>
   sendToolCallEventsStates res reqs \<sigma> ! k =
     \<sigma>\<lparr>effects := effects \<sigma> @
          map (\<lambda>req. SendToolCallEvent res (callId req) (name req) (args req))
            (take (Suc k) reqs)\<rparr>"
proof (induction reqs arbitrary: \<sigma> k)
  case Nil
  then show ?case by simp
next
  case (Cons req reqs)
  show ?case
  proof (cases k)
    case 0
    then show ?thesis by (simp add: emit_def)
  next
    case (Suc j)
    with Cons.prems have "j < length reqs" by simp
    from Cons.IH [OF this] Suc show ?thesis by (simp add: emit_def)
  qed
qed

lemma sendToolCallEventsStates_last:
  "last (\<sigma> # sendToolCallEventsStates res reqs \<sigma>) = sendToolCallEvents res reqs \<sigma>"
  by (induction reqs arbitrary: \<sigma>) simp_all

lemma sendToolResultEvents_eq:
  "sendToolResultEvents res tcs \<sigma> =
     \<sigma>\<lparr>effects := effects \<sigma> @ map (SendToolResultEvent res) tcs\<rparr>"
  by (induction tcs arbitrary: \<sigma>) (simp_all add: emit_def)

lemma cancelToolCalls_length [simp]: "length (cancelToolCalls tcs) = length tcs"
  by (induction tcs) simp_all

lemma cancelToolCalls_nth:
  "i < length tcs \<Longrightarrow>
   cancelToolCalls tcs ! i =
     (if status (tcs ! i) = awaiting_approval \<or> status (tcs ! i) = executing
      then (tcs ! i)\<lparr>status := cancelled\<rparr> else tcs ! i)"
proof (induction tcs arbitrary: i)
  case Nil
  then show ?case by simp
next
  case (Cons tc tcs)
  then show ?case by (cases i) simp_all
qed

lemma liveCalls_cancelAll:
  "liveCalls (cancelAllOperations \<sigma>) = cancelToolCalls (liveCalls \<sigma>)"
  by (simp add: liveCalls_def cancelAllOperations_def clearCurrentResponse_def
      split: option.splits)

lemma awaitingIds_simps [simp]:
  "awaitingIds [] = []"
  "awaitingIds (tc # tcs) =
     (if status tc = awaiting_approval then callId (request tc) # awaitingIds tcs
      else awaitingIds tcs)"
  by (simp_all add: awaitingIds_def)

subsection \<open>The update loop\<close>

lemma updateToolCall_success: "status tc = success \<Longrightarrow> updateToolCall res tc \<sigma> = \<sigma>"
  by (simp add: updateToolCall_def)

lemma updateToolCalls_drop_success:
  "updateToolCalls res tcs \<sigma> = updateToolCalls res (filter (\<lambda>tc. status tc \<noteq> success) tcs) \<sigma>"
  by (induction tcs arbitrary: \<sigma>) (simp_all add: updateToolCall_success)

lemma updateToolCall_results:
  "filter isResultEvent (effects (updateToolCall res tc \<sigma>)) = filter isResultEvent (effects \<sigma>)"
  by (simp add: updateToolCall_def)

lemma updateToolCalls_results:
  "filter isResultEvent (effects (updateToolCalls res tcs \<sigma>)) = filter isResultEvent (effects \<sigma>)"
  by (induction tcs arbitrary: \<sigma>) (simp_all add: updateToolCall_results)

lemma updateToolCall_sent:
  "sentConfirmationEvents (updateToolCall res tc \<sigma>) =
     (if status tc = awaiting_approval
      then insert (callId (request tc)) (sentConfirmationEvents \<sigma>)
      else sentConfirmationEvents \<sigma>)"
  by (auto simp: updateToolCall_def)

lemma updateToolCall_count:
  "confirmationCount r c (updateToolCall res tc \<sigma>) =
     confirmationCount r c \<sigma> +
       (if r = res \<and> status tc = awaiting_approval \<and> callId (request tc) = c \<and>
           c \<notin> sentConfirmationEvents \<sigma> then 1 else 0)"
  by (auto simp: updateToolCall_def confirmationCount_def)

lemma updateToolCalls_sent:
  "sentConfirmationEvents (updateToolCalls res tcs \<sigma>) =
     sentConfirmationEvents \<sigma> \<union> set (awaitingIds tcs)"
proof (induction tcs arbitrary: \<sigma>)
  case Nil
  then show ?case by simp
next
  case (Cons tc tcs)
  show ?case
    by (simp add: Cons.IH updateToolCall_sent)
qed

lemma updateToolCalls_count:
  "confirmationCount r c (updateToolCalls res tcs \<sigma>) =
     confirmationCount r c \<sigma> +
       (if r = res \<and> c \<in> set (awaitingIds tcs) \<and> c \<notin> sentConfirmationEvents \<sigma> then 1 else 0)"
proof (induction tcs arbitrary: \<sigma>)
  case Nil
  then show ?case by simp
next
  case (Cons tc tcs)
  show ?case
    by (simp add: Cons.IH updateToolCall_count updateToolCall_sent)
qed

subsection \<open>Single calls and histories\<close>

lemma step_results:
  "\<not> isBatchCompletion a \<Longrightarrow>
   filter isResultEvent (effects (step vo a \<sigma>)) = filter isResultEvent (effects \<sigma>)"
proof (cases a)
  case (HandleToolCallsUpdate tcs)
  then show ?thesis
    by (simp add: handleToolCallsUpdate_def updateToolCalls_results split: option.splits)
next
  case (HandleToolConfirmation cid outcome sig)
  then show ?thesis
    by (simp add: handleToolConfirmation_def detachedScheduler_def split: option.splits)
qed (simp_all add: initializeScheduler_def setToolCompletionCallback_def scheduleToolCall_def
      scheduleToolCalls_def detachedScheduler_def sendToolCallEvents_eq clearCurrentResponse_def
      cancelAllOperations_def handleOutputUpdate_def split: option.splits)

lemma step_release:
  "releases a \<Longrightarrow>
   sentConfirmationEvents (step vo a \<sigma>) = {} \<and> currentResponse (step vo a \<sigma>) = None"
  by (cases a) (simp_all add: clearCurrentResponse_def cancelAllOperations_def)

lemma step_keeps:
  assumes "\<not> releases a"
  shows "sentConfirmationEvents \<sigma> \<subseteq> sentConfirmationEvents (step vo a \<sigma>) \<and>
         (currentResponse (step vo a \<sigma>) = None \<longrightarrow> currentResponse \<sigma> = None)"
proof (cases a)
  case (HandleToolCallsUpdate tcs)
  have "currentResponse (updateToolCalls res tcs \<tau>) = currentResponse \<tau>" for res \<tau>
    by (induction tcs arbitrary: \<tau>) (simp_all add: updateToolCall_def)
  with HandleToolCallsUpdate show ?thesis
    by (simp add: handleToolCallsUpdate_def updateToolCalls_sent split: option.splits)
next
  case (HandleToolConfirmation cid outcome sig)
  then show ?thesis
    by (simp add: handleToolConfirmation_def detachedScheduler_def split: option.splits)
qed (use assms in \<open>simp_all add: initializeScheduler_def setToolCompletionCallback_def
      scheduleToolCall_def scheduleToolCalls_def detachedScheduler_def sendToolCallEvents_eq
      handleAllToolCallsComplete_def sendToolResultEvents_eq handleOutputUpdate_def
      split: option.splits\<close>)

lemma step_count:
  assumes "\<not> releases a"
  shows "confirmationCount r c (step vo a \<sigma>) \<le>
           confirmationCount r c \<sigma> +
             (if c \<in> sentConfirmationEvents (step vo a \<sigma>) \<and> c \<notin> sentConfirmationEvents \<sigma>
              then 1 else 0)"
proof (cases a)
  case (HandleToolCallsUpdate tcs)
  then show ?thesis
    by (simp add: handleToolCallsUpdate_def updateToolCalls_count updateToolCalls_sent
        split: option.splits)
next
  case (HandleToolConfirmation cid outcome sig)
  then show ?thesis
    by (simp add: handleToolConfirmation_def detachedScheduler_def confirmationCount_def split: option.splits)
next
  case (HandleAllToolCallsComplete tcs)
  have "filter (isConfirmationFor r c) (map (SendToolResultEvent res) tcs) = []" for res
    by (induction tcs) simp_all
  with HandleAllToolCallsComplete show ?thesis
    by (simp add: handleAllToolCallsComplete_def sendToolResultEvents_eq confirmationCount_def
        split: option.splits)
next
  case (ScheduleToolCalls reqs sig res)
  have "filter (isConfirmationFor r c)
          (map (\<lambda>req. SendToolCallEvent res (callId req) (name req) (args req)) reqs) = []"
    by (induction reqs) simp_all
  with ScheduleToolCalls show ?thesis
    by (simp add: scheduleToolCalls_def detachedScheduler_def sendToolCallEvents_eq confirmationCount_def
        split: option.splits)
next
  case (ScheduleToolCall req sig res)
  then show ?thesis
    by (simp add: scheduleToolCall_def scheduleToolCalls_def detachedScheduler_def confirmationCount_def
        split: option.splits)
qed (use assms in \<open>simp_all add: initializeScheduler_def setToolCompletionCallback_def
      handleOutputUpdate_def confirmationCount_def split: option.splits\<close>)

lemma run_count:
  assumes "\<forall>a \<in> set acts. \<not> releases a"
  shows "sentConfirmationEvents \<sigma> \<subseteq> sentConfirmationEvents (run vo acts \<sigma>) \<and>
         confirmationCount r c (run vo acts \<sigma>) \<le>
           confirmationCount r c \<sigma> +
             (if c \<in> sentConfirmationEvents (run vo acts \<sigma>) \<and> c \<notin> sentConfirmationEvents \<sigma>
              then 1 else 0)"
  using assms
proof (induction acts arbitrary: \<sigma>)
  case Nil
  then show ?case by simp
next
  case (Cons a acts)
  from Cons.prems have a: "\<not> releases a" and rest: "\<forall>a \<in> set acts. \<not> releases a"
    by simp_all
  from step_count [OF a, of r c vo \<sigma>] step_keeps [OF a, of \<sigma> vo]
    Cons.IH [OF rest, of "step vo a \<sigma>"]
  show ?case by (auto split: if_splits)
qed

text \<open>
  Histories cover the callbacks a scheduler fires while \<open>schedule\<close> runs: when the awaited
  operation acts on the orchestrator through a list of callbacks, the method leaves the
  state of the history that has the call followed by those callbacks.
\<close>

lemma nested_callbacks_as_history:
  assumes "toolScheduler \<sigma> \<noteq> None"
    and "\<And>\<tau>. snd (schedule code reqs sig \<tau>) = run vo callbacks \<tau>"
  shows "snd (scheduleToolCalls code reqs sig res \<sigma>) =
           run vo (ScheduleToolCalls reqs sig res # callbacks) \<sigma>"
  using assms
  by (auto simp: scheduleToolCalls_def detachedScheduler_def)

section \<open>The claims\<close>

text \<open>
  Claim C1, as the code has it. Between two releases of the current response, at most one
  confirmation event per call id is written to a response. An update callback writes a
  confirmation event for a call id exactly when a response is current, some reported call
  with that id awaits approval, and the id is not in the set \<open>sentConfirmationEvents\<close>; it
  then holds the id in the set, so that every later report of the call writes nothing.
  Over any history of calls that does not release the response, the number of
  confirmation events for an id grows by at most one, and not at all when the id was in
  the set at the start. The set is emptied by \<open>clearCurrentResponse\<close> (also through
  \<open>cancelAllOperations\<close>), which sets the response to null in the same step, and by nothing
  else: a call that loses an entry of the set empties it and leaves no response current,
  and a call that takes the response from current to null leaves the set empty.
  Scheduling a batch puts a new response in the place of the current one and keeps the
  set as it is.
\<close>

theorem confirmation_event_dedup:
  "confirmationCount r c (handleToolCallsUpdate tcs \<sigma>) =
     confirmationCount r c \<sigma> +
       (if currentResponse \<sigma> = Some r \<and> c \<in> set (awaitingIds tcs) \<and>
           c \<notin> sentConfirmationEvents \<sigma> then 1 else 0) \<and>
   sentConfirmationEvents (handleToolCallsUpdate tcs \<sigma>) =
     (if currentResponse \<sigma> = None then sentConfirmationEvents \<sigma>
      else sentConfirmationEvents \<sigma> \<union> set (awaitingIds tcs)) \<and>
   ((\<forall>a \<in> set acts. \<not> releases a) \<longrightarrow>
      sentConfirmationEvents \<sigma> \<subseteq> sentConfirmationEvents (run vo acts \<sigma>) \<and>
      confirmationCount r c (run vo acts \<sigma>) \<le>
        confirmationCount r c \<sigma> + (if c \<in> sentConfirmationEvents \<sigma> then 0 else 1)) \<and>
   (releases a \<longrightarrow>
      sentConfirmationEvents (step vo a \<sigma>) = {} \<and> currentResponse (step vo a \<sigma>) = None) \<and>
   (\<not> releases b \<longrightarrow>
      sentConfirmationEvents \<sigma> \<subseteq> sentConfirmationEvents (step vo b \<sigma>) \<and>
      (currentResponse (step vo b \<sigma>) = None \<longrightarrow> currentResponse \<sigma> = None)) \<and>
   (\<not> sentConfirmationEvents \<sigma> \<subseteq> sentConfirmationEvents (step vo d \<sigma>) \<longrightarrow>
      sentConfirmationEvents (step vo d \<sigma>) = {} \<and> currentResponse (step vo d \<sigma>) = None) \<and>
   (currentResponse \<sigma> \<noteq> None \<and> currentResponse (step vo d \<sigma>) = None \<longrightarrow>
      sentConfirmationEvents (step vo d \<sigma>) = {}) \<and>
   sentConfirmationEvents (step vo (ScheduleToolCalls reqs sig res) \<sigma>) =
     sentConfirmationEvents \<sigma> \<and>
   (toolScheduler \<sigma> \<noteq> None \<longrightarrow>
      currentResponse (step vo (ScheduleToolCalls reqs sig res) \<sigma>) = Some res)"
proof -
  have update_count: "confirmationCount r c (handleToolCallsUpdate tcs \<sigma>) =
     confirmationCount r c \<sigma> +
       (if currentResponse \<sigma> = Some r \<and> c \<in> set (awaitingIds tcs) \<and>
           c \<notin> sentConfirmationEvents \<sigma> then 1 else 0)"
    by (simp add: handleToolCallsUpdate_def updateToolCalls_count split: option.splits)
  have update_sent: "sentConfirmationEvents (handleToolCallsUpdate tcs \<sigma>) =
     (if currentResponse \<sigma> = None then sentConfirmationEvents \<sigma>
      else sentConfirmationEvents \<sigma> \<union> set (awaitingIds tcs))"
    by (simp add: handleToolCallsUpdate_def updateToolCalls_sent split: option.splits)
  have history: "sentConfirmationEvents \<sigma> \<subseteq> sentConfirmationEvents (run vo acts \<sigma>) \<and>
      confirmationCount r c (run vo acts \<sigma>) \<le>
        confirmationCount r c \<sigma> + (if c \<in> sentConfirmationEvents \<sigma> then 0 else 1)"
    if "\<forall>a \<in> set acts. \<not> releases a"
    using run_count [OF that, of \<sigma> vo r c] by (auto split: if_splits)
  have lost: "sentConfirmationEvents (step vo d \<sigma>) = {} \<and> currentResponse (step vo d \<sigma>) = None"
    if "\<not> sentConfirmationEvents \<sigma> \<subseteq> sentConfirmationEvents (step vo d \<sigma>)"
    using that step_release [of d vo \<sigma>] step_keeps [of d \<sigma> vo]
    by (cases "releases d") auto
  have nulled: "sentConfirmationEvents (step vo d \<sigma>) = {}"
    if "currentResponse \<sigma> \<noteq> None \<and> currentResponse (step vo d \<sigma>) = None"
    using that step_release [of d vo \<sigma>] step_keeps [of d \<sigma> vo]
    by (cases "releases d") auto
  have replace_sent: "sentConfirmationEvents (step vo (ScheduleToolCalls reqs sig res) \<sigma>) =
     sentConfirmationEvents \<sigma>"
    by (simp add: scheduleToolCalls_def detachedScheduler_def sendToolCallEvents_eq
        split: option.splits)
  have replace_response: "toolScheduler \<sigma> \<noteq> None \<longrightarrow>
      currentResponse (step vo (ScheduleToolCalls reqs sig res) \<sigma>) = Some res"
    by (simp add: scheduleToolCalls_def detachedScheduler_def sendToolCallEvents_eq
        split: option.splits)
  from update_count update_sent history step_release [of a vo \<sigma>] step_keeps [of b \<sigma> vo]
    lost nulled replace_sent replace_response
  show ?thesis by blast
qed

theorem confirmation_event_dedup_witness:
  "list_all (\<lambda>a. \<not> releases a)
     [ScheduleToolCalls [requestA, requestB] 0 1,
      HandleToolCallsUpdate scenarioCalls,
      HandleOutputUpdate ''a'' ''chunk'',
      HandleToolCallsUpdate scenarioCalls] \<and>
   releases CancelAllOperations \<and>
   \<not> releases (HandleToolCallsUpdate scenarioCalls) \<and>
   confirmationCount 1 ''b''
     (run specOutcomes
        [ScheduleToolCalls [requestA, requestB] 0 1,
         HandleToolCallsUpdate scenarioCalls,
         HandleOutputUpdate ''a'' ''chunk'',
         HandleToolCallsUpdate scenarioCalls]
        (orchestratorWith [])) = 1 \<and>
   sentConfirmationEvents scenarioOrchestrator = {''b''} \<and>
   currentResponse scenarioOrchestrator = Some 1 \<and>
   sentConfirmationEvents (step specOutcomes CancelAllOperations scenarioOrchestrator) = {} \<and>
   currentResponse (step specOutcomes CancelAllOperations scenarioOrchestrator) = None \<and>
   sentConfirmationEvents (step specOutcomes (HandleToolCallsUpdate scenarioCalls)
                             scenarioOrchestrator) = {''b''} \<and>
   confirmationCount 1 ''b'' (handleToolCallsUpdate scenarioCalls scenarioOrchestrator) =
     confirmationCount 1 ''b'' scenarioOrchestrator \<and>
   currentResponse (step specOutcomes (HandleToolCallsUpdate scenarioCalls)
                      (orchestratorWith [])) = None \<and>
   currentResponse (orchestratorWith []) = None \<and>
   sentConfirmationEvents
     (step specOutcomes (ScheduleToolCalls [requestB] 0 2) scenarioOrchestrator) = {''b''} \<and>
   currentResponse
     (step specOutcomes (ScheduleToolCalls [requestB] 0 2) scenarioOrchestrator) = Some 2"
  using confirmation_event_dedup
      [where r = 1 and c = "''b''" and tcs = scenarioCalls and \<sigma> = "orchestratorWith []"
         and acts = "[ScheduleToolCalls [requestA, requestB] 0 1,
                      HandleToolCallsUpdate scenarioCalls,
                      HandleOutputUpdate ''a'' ''chunk'',
                      HandleToolCallsUpdate scenarioCalls]"
         and vo = specOutcomes and a = CancelAllOperations
         and b = "HandleToolCallsUpdate scenarioCalls" and d = CancelAllOperations
         and reqs = "[requestB]" and sig = 0 and res = 2]
    confirmation_event_dedup
      [where r = 1 and c = "''b''" and tcs = scenarioCalls and \<sigma> = scenarioOrchestrator
         and acts = "[]" and vo = specOutcomes and a = CancelAllOperations
         and b = "HandleToolCallsUpdate scenarioCalls" and d = CancelAllOperations
         and reqs = "[requestB]" and sig = 0 and res = 2]
  by (simp add: confirmationCount_def scheduleToolCalls_def detachedScheduler_def
      handleToolCallsUpdate_def handleOutputUpdate_def updateToolCall_def
      cancelAllOperations_def clearCurrentResponse_def emit_def commandOf_def scenario_defs)

text \<open>
  Claim C1 as stated speaks of every event ever written to a response, and of a set that
  is cleared exactly when the channel is released. After a release the set is empty, so
  the same response, made current again by the next batch, receives a second
  confirmation event for the call \<open>b\<close> that still awaits approval. And a batch scheduled
  on a new response, with no release in between, takes the place of the current one but
  finds the set as it was: the call \<open>b\<close>, reported on the new response 2, gets no
  confirmation event there.
\<close>

theorem confirmation_repeats_after_release:
  "confirmationCount 1 ''b''
     (run specOutcomes
        [ScheduleToolCalls [requestA, requestB] 0 1,
         HandleToolCallsUpdate scenarioCalls,
         ClearCurrentResponse,
         ScheduleToolCalls [requestA, requestB] 0 1,
         HandleToolCallsUpdate scenarioCalls]
        (orchestratorWith [])) = 2 \<and>
   currentResponse
     (run specOutcomes
        [ScheduleToolCalls [requestA, requestB] 0 1,
         HandleToolCallsUpdate scenarioCalls,
         ScheduleToolCalls [requestB] 0 2]
        (orchestratorWith [])) = Some 2 \<and>
   sentConfirmationEvents
     (run specOutcomes
        [ScheduleToolCalls [requestA, requestB] 0 1,
         HandleToolCallsUpdate scenarioCalls,
         ScheduleToolCalls [requestB] 0 2]
        (orchestratorWith [])) = {''b''} \<and>
   confirmationCount 2 ''b''
     (run specOutcomes
        [ScheduleToolCalls [requestA, requestB] 0 1,
         HandleToolCallsUpdate scenarioCalls,
         ScheduleToolCalls [requestB] 0 2,
         HandleToolCallsUpdate scenarioCalls]
        (orchestratorWith [])) = 0"
  by (simp add: confirmationCount_def scheduleToolCalls_def detachedScheduler_def
      handleToolCallsUpdate_def updateToolCall_def clearCurrentResponse_def emit_def
      commandOf_def scenario_defs)

text \<open>
  Claim C2, as the code has it. With a scheduler initialised and a recognised outcome,
  \<open>handleToolConfirmation\<close> fails whenever no call with the given id awaits approval, be
  it that no call has the id or that the call with the id is in another status. Both
  cases throw one and the same error, "Tool call not found or not awaiting approval";
  in both the state is returned as it was, and nothing is delegated to the scheduler,
  whatever the scheduler's code.
\<close>

theorem confirmation_lookup_failure:
  assumes "toolScheduler \<sigma> = Some sch" and "outcome \<in> set validOutcomes"
    and "\<forall>tc \<in> set (toolCalls sch). callId (request tc) = cid \<longrightarrow> status tc \<noteq> awaiting_approval"
  shows "handleToolConfirmation code validOutcomes cid outcome sig \<sigma> =
           (Inl (Error ''Tool call not found or not awaiting approval''), \<sigma>)"
proof (cases "List.find (\<lambda>tc. callId (request tc) = cid) (toolCalls sch)")
  case None
  with assms show ?thesis
    by (simp add: handleToolConfirmation_def notFoundOrNotAwaiting_def)
next
  case (Some tc)
  then have "tc \<in> set (toolCalls sch)" and "callId (request tc) = cid"
    by (auto simp: find_Some_iff)
  with assms(3) have "status tc \<noteq> awaiting_approval" by blast
  with assms Some show ?thesis
    by (simp add: handleToolConfirmation_def notFoundOrNotAwaiting_def)
qed

theorem confirmation_lookup_failure_witness:
  "toolScheduler scenarioOrchestrator = Some \<lparr>toolCalls = scenarioCalls\<rparr> \<and>
   ''cancel'' \<in> set specOutcomes \<and>
   list_all (\<lambda>tc. \<not> (callId (request tc) = ''c'' \<and> status tc = awaiting_approval))
     scenarioCalls \<and>
   list_all (\<lambda>tc. \<not> (callId (request tc) = ''a'' \<and> status tc = awaiting_approval))
     scenarioCalls \<and>
   handleToolConfirmation approvalScheduler specOutcomes ''c'' ''cancel'' 0
       scenarioOrchestrator =
     (Inl (Error ''Tool call not found or not awaiting approval''), scenarioOrchestrator) \<and>
   handleToolConfirmation approvalScheduler specOutcomes ''a'' ''cancel'' 0
       scenarioOrchestrator =
     (Inl (Error ''Tool call not found or not awaiting approval''), scenarioOrchestrator)"
proof -
  have h1: "toolScheduler scenarioOrchestrator = Some \<lparr>toolCalls = scenarioCalls\<rparr>"
    by (simp add: scenarioOrchestrator_def orchestratorWith_def)
  have h2: "''cancel'' \<in> set specOutcomes"
    by (simp add: specOutcomes_def)
  have h3: "\<forall>tc \<in> set (toolCalls \<lparr>toolCalls = scenarioCalls\<rparr>).
              callId (request tc) = ''c'' \<longrightarrow> status tc \<noteq> awaiting_approval"
    by (simp add: scenarioCalls_def toolCallOf_def requestA_def requestB_def)
  have h4: "\<forall>tc \<in> set (toolCalls \<lparr>toolCalls = scenarioCalls\<rparr>).
              callId (request tc) = ''a'' \<longrightarrow> status tc \<noteq> awaiting_approval"
    by (simp add: scenarioCalls_def toolCallOf_def requestA_def requestB_def)
  from confirmation_lookup_failure [OF h1 h2 h3, where code = approvalScheduler and sig = 0]
    confirmation_lookup_failure [OF h1 h2 h4, where code = approvalScheduler and sig = 0]
    h1 h2 h3 h4
  show ?thesis by (simp add: list_all_iff)
qed

text \<open>
  Claim C2 as stated asks for two distinct errors. In the scenario no call has the id
  \<open>c\<close>, and the call \<open>a\<close> exists but is executing: confirming either one throws the very
  same error.
\<close>

theorem confirmation_lookup_errors_coincide:
  "List.find (\<lambda>tc. callId (request tc) = ''c'') (liveCalls scenarioOrchestrator) = None \<and>
   List.find (\<lambda>tc. callId (request tc) = ''a'') (liveCalls scenarioOrchestrator) =
     Some (toolCallOf requestA executing) \<and>
   fst (handleToolConfirmation approvalScheduler specOutcomes ''c'' ''cancel'' 0
          scenarioOrchestrator) =
     Inl (Error ''Tool call not found or not awaiting approval'') \<and>
   fst (handleToolConfirmation approvalScheduler specOutcomes ''a'' ''cancel'' 0
          scenarioOrchestrator) =
     Inl (Error ''Tool call not found or not awaiting approval'')"
  by (simp add: handleToolConfirmation_def notFoundOrNotAwaiting_def liveCalls_def scenario_defs)

text \<open>
  Claim C3. \<open>cancelAllOperations\<close> walks the scheduler's live calls and sets every call
  that awaits approval or executes to \<open>cancelled\<close>, keeping the number and order of the
  calls; it leaves a missing scheduler missing; and it releases the current response and
  empties the set \<open>sentConfirmationEvents\<close>.
\<close>

theorem cancelAll_cancels_and_releases:
  "length (liveCalls (cancelAllOperations \<sigma>)) = length (liveCalls \<sigma>) \<and>
   (\<forall>i < length (liveCalls \<sigma>).
      status (liveCalls \<sigma> ! i) = awaiting_approval \<or> status (liveCalls \<sigma> ! i) = executing
      \<longrightarrow> liveCalls (cancelAllOperations \<sigma>) ! i = (liveCalls \<sigma> ! i)\<lparr>status := cancelled\<rparr>) \<and>
   (toolScheduler (cancelAllOperations \<sigma>) = None \<longleftrightarrow> toolScheduler \<sigma> = None) \<and>
   currentResponse (cancelAllOperations \<sigma>) = None \<and>
   sentConfirmationEvents (cancelAllOperations \<sigma>) = {}"
proof -
  have "toolScheduler (cancelAllOperations \<sigma>) = None \<longleftrightarrow> toolScheduler \<sigma> = None"
    by (simp add: cancelAllOperations_def clearCurrentResponse_def split: option.splits)
  moreover have "currentResponse (cancelAllOperations \<sigma>) = None"
    and "sentConfirmationEvents (cancelAllOperations \<sigma>) = {}"
    by (simp_all add: cancelAllOperations_def clearCurrentResponse_def)
  ultimately show ?thesis
    by (simp add: liveCalls_cancelAll cancelToolCalls_nth)
qed

theorem cancelAll_cancels_and_releases_witness:
  "(1::nat) < length (liveCalls scenarioOrchestrator) \<and>
   status (liveCalls scenarioOrchestrator ! 1) = awaiting_approval \<and>
   liveCalls (cancelAllOperations scenarioOrchestrator) =
     [toolCallOf requestA cancelled,
      (toolCallOf requestB awaiting_approval)\<lparr>status := cancelled\<rparr>] \<and>
   currentResponse scenarioOrchestrator = Some 1 \<and>
   currentResponse (cancelAllOperations scenarioOrchestrator) = None \<and>
   sentConfirmationEvents scenarioOrchestrator = {''b''} \<and>
   sentConfirmationEvents (cancelAllOperations scenarioOrchestrator) = {}"
  using cancelAll_cancels_and_releases [of scenarioOrchestrator]
  by (simp add: liveCalls_def cancelAllOperations_def clearCurrentResponse_def scenario_defs)

text \<open>
  Claim C4. In an update callback a call whose status is \<open>success\<close> produces no event:
  the callback does the same with and without the successful calls. Result events are
  written on the batch-completion path only: no other call of the orchestrator adds a
  result event to the log. On that path, with a response current, the handler writes one
  result event per completed call, in the order of the list, and then invokes the
  registered completion callback, if there is one, with the whole list.
\<close>

theorem success_results_only_at_completion:
  "handleToolCallsUpdate tcs \<sigma> =
     handleToolCallsUpdate (filter (\<lambda>tc. status tc \<noteq> success) tcs) \<sigma> \<and>
   (\<not> isBatchCompletion a \<longrightarrow>
      filter isResultEvent (effects (step vo a \<sigma>)) = filter isResultEvent (effects \<sigma>)) \<and>
   (currentResponse \<sigma> = Some res \<longrightarrow>
      effects (handleAllToolCallsComplete done \<sigma>) =
        effects \<sigma> @ map (SendToolResultEvent res) done @
          (case toolCompletionCallback \<sigma> of
             None \<Rightarrow> []
           | Some callback \<Rightarrow> [InvokeToolCompletionCallback callback done]))"
proof -
  have "handleToolCallsUpdate tcs \<sigma> =
     handleToolCallsUpdate (filter (\<lambda>tc. status tc \<noteq> success) tcs) \<sigma>"
    using updateToolCalls_drop_success
    by (simp add: handleToolCallsUpdate_def split: option.splits)
  moreover have "currentResponse \<sigma> = Some res \<longrightarrow>
      effects (handleAllToolCallsComplete done \<sigma>) =
        effects \<sigma> @ map (SendToolResultEvent res) done @
          (case toolCompletionCallback \<sigma> of
             None \<Rightarrow> []
           | Some callback \<Rightarrow> [InvokeToolCompletionCallback callback done])"
    by (simp add: handleAllToolCallsComplete_def sendToolResultEvents_eq split: option.splits)
  ultimately show ?thesis
    using step_results by blast
qed

theorem success_results_only_at_completion_witness:
  "\<not> isBatchCompletion (HandleToolCallsUpdate [toolCallOf requestA success]) \<and>
   currentResponse (setToolCompletionCallback 7 scenarioOrchestrator) = Some 1 \<and>
   handleToolCallsUpdate [toolCallOf requestA success] (setToolCompletionCallback 7 scenarioOrchestrator) =
     setToolCompletionCallback 7 scenarioOrchestrator \<and>
   filter isResultEvent
     (effects (step specOutcomes (HandleToolCallsUpdate [toolCallOf requestA success])
                 (setToolCompletionCallback 7 scenarioOrchestrator))) = [] \<and>
   effects (handleAllToolCallsComplete
              [toolCallOf requestA success, toolCallOf requestB cancelled]
              (setToolCompletionCallback 7 scenarioOrchestrator)) =
     [SendToolResultEvent 1 (toolCallOf requestA success),
      SendToolResultEvent 1 (toolCallOf requestB cancelled),
      InvokeToolCompletionCallback 7
        [toolCallOf requestA success, toolCallOf requestB cancelled]]"
  using success_results_only_at_completion [of "[toolCallOf requestA success]" "setToolCompletionCallback 7 scenarioOrchestrator"
      "HandleToolCallsUpdate [toolCallOf requestA success]" specOutcomes 1
      "[toolCallOf requestA success, toolCallOf requestB cancelled]"]
  by (simp add: handleToolCallsUpdate_def updateToolCall_def setToolCompletionCallback_def
      handleAllToolCallsComplete_def scenario_defs)

text \<open>
  Claim C5. While no response is current, the update handler and the output-chunk handler
  change nothing, and the batch-completion handler writes no event to any response: all
  it may add to the log is the invocation of the completion callback.
\<close>

theorem no_response_drops_events:
  assumes "currentResponse \<sigma> = None"
  shows "handleToolCallsUpdate tcs \<sigma> = \<sigma> \<and>
         handleOutputUpdate cid chunk \<sigma> = \<sigma> \<and>
         effects (handleAllToolCallsComplete tcs \<sigma>) =
           effects \<sigma> @
             (case toolCompletionCallback \<sigma> of
                None \<Rightarrow> []
              | Some callback \<Rightarrow> [InvokeToolCompletionCallback callback tcs]) \<and>
         filter isStreamEvent (effects (handleAllToolCallsComplete tcs \<sigma>)) =
           filter isStreamEvent (effects \<sigma>)"
  using assms
  by (simp add: handleToolCallsUpdate_def handleOutputUpdate_def
      handleAllToolCallsComplete_def split: option.splits)

theorem no_response_drops_events_witness:
  "currentResponse (orchestratorWith []) = None \<and>
   handleToolCallsUpdate [toolCallOf requestA executing, toolCallOf requestB awaiting_approval]
     (orchestratorWith []) = orchestratorWith [] \<and>
   handleOutputUpdate ''a'' ''chunk'' (orchestratorWith []) = orchestratorWith [] \<and>
   effects (handleAllToolCallsComplete [toolCallOf requestA success]
              (setToolCompletionCallback 7 (orchestratorWith []))) =
     [InvokeToolCompletionCallback 7 [toolCallOf requestA success]]"
proof -
  have h: "currentResponse (orchestratorWith []) = None"
    by (simp add: orchestratorWith_def newToolOrchestrator_def)
  have h': "currentResponse (setToolCompletionCallback 7 (orchestratorWith [])) = None"
    by (simp add: setToolCompletionCallback_def orchestratorWith_def newToolOrchestrator_def)
  from no_response_drops_events [OF h,
      of "[toolCallOf requestA executing, toolCallOf requestB awaiting_approval]"
         "''a''" "''chunk''"]
    no_response_drops_events [OF h', of "[toolCallOf requestA success]"] h
  show ?thesis
    by (simp add: setToolCompletionCallback_def orchestratorWith_def newToolOrchestrator_def)
qed

text \<open>
  Claim C6. While no scheduler has been initialised, \<open>scheduleToolCalls\<close> and
  \<open>handleToolConfirmation\<close> fail, for every input, with the error
  "Tool scheduler not initialized". The error is the result of the call itself, and the
  state is untouched: no response is recorded and nothing is written or delegated,
  whatever the scheduler's code.
\<close>

theorem uninitialized_scheduler_fails:
  assumes "toolScheduler \<sigma> = None"
  shows "scheduleToolCalls code reqs sig res \<sigma> =
           (Inl (Error ''Tool scheduler not initialized''), \<sigma>) \<and>
         handleToolConfirmation code validOutcomes cid outcome sig \<sigma> =
           (Inl (Error ''Tool scheduler not initialized''), \<sigma>)"
  using assms
  by (simp add: scheduleToolCalls_def handleToolConfirmation_def notInitialized_def)

theorem uninitialized_scheduler_fails_witness:
  "toolScheduler newToolOrchestrator = None \<and>
   scheduleToolCalls approvalScheduler [requestA, requestB] 0 1 newToolOrchestrator =
     (Inl (Error ''Tool scheduler not initialized''), newToolOrchestrator) \<and>
   handleToolConfirmation approvalScheduler specOutcomes ''b'' ''proceedOnce'' 0
       newToolOrchestrator =
     (Inl (Error ''Tool scheduler not initialized''), newToolOrchestrator)"
proof -
  have h: "toolScheduler newToolOrchestrator = None"
    by (simp add: newToolOrchestrator_def)
  from uninitialized_scheduler_fails
      [OF h, where code = approvalScheduler and reqs = "[requestA, requestB]" and sig = 0
         and res = 1 and validOutcomes = specOutcomes and cid = "''b''"
         and outcome = "''proceedOnce''"] h
  show ?thesis by simp
qed

text \<open>
  Claim C7, as the code has it. Once a scheduler is initialised, \<open>handleToolConfirmation\<close>
  with an outcome that is not among the recognised values fails with the error
  "Invalid outcome value: ...", whatever the call id and whatever calls the scheduler
  holds: the check precedes the lookup, and the state is returned as it was.
\<close>

theorem invalid_outcome_rejected:
  assumes "toolScheduler \<sigma> = Some sch" and "outcome \<notin> set validOutcomes"
  shows "handleToolConfirmation code validOutcomes cid outcome sig \<sigma> =
           (Inl (Error (''Invalid outcome value: '' @ outcome @ ''. Must be one of: ''
                        @ join '', '' validOutcomes)), \<sigma>)"
  using assms by (simp add: handleToolConfirmation_def invalidOutcome_def)

theorem invalid_outcome_rejected_witness:
  "toolScheduler scenarioOrchestrator = Some \<lparr>toolCalls = scenarioCalls\<rparr> \<and>
   ''approve'' \<notin> set specOutcomes \<and>
   handleToolConfirmation approvalScheduler specOutcomes ''b'' ''approve'' 0
       scenarioOrchestrator =
     (Inl (Error ''Invalid outcome value: approve. Must be one of: proceedOnce, proceedAlways, modifyWithEditor, cancel''),
      scenarioOrchestrator)"
proof -
  have h1: "toolScheduler scenarioOrchestrator = Some \<lparr>toolCalls = scenarioCalls\<rparr>"
    by (simp add: scenarioOrchestrator_def orchestratorWith_def)
  have h2: "''approve'' \<notin> set specOutcomes"
    by (simp add: specOutcomes_def)
  from invalid_outcome_rejected
      [OF h1 h2, where code = approvalScheduler and cid = "''b''" and sig = 0] h1 h2
  show ?thesis by (simp add: specOutcomes_def)
qed

text \<open>
  Claim C7 as stated speaks of every call. Before a scheduler is initialised the guard on
  the scheduler comes first: an unrecognised outcome then fails with
  "Tool scheduler not initialized", not with the invalid-outcome error.
\<close>

theorem invalid_outcome_uninitialized:
  "''approve'' \<notin> set specOutcomes \<and>
   handleToolConfirmation approvalScheduler specOutcomes ''b'' ''approve'' 0
       newToolOrchestrator =
     (Inl (Error ''Tool scheduler not initialized''), newToolOrchestrator) \<and>
   fst (handleToolConfirmation approvalScheduler specOutcomes ''b'' ''approve'' 0
          newToolOrchestrator) \<noteq>
     Inl (invalidOutcome specOutcomes ''approve'')"
  by (simp add: handleToolConfirmation_def notInitialized_def invalidOutcome_def
      newToolOrchestrator_def specOutcomes_def)

text \<open>
  Claim C8. On an initialised scheduler, \<open>scheduleToolCalls\<close> first makes the given
  response current, then writes one "tool call" event with call id, name and arguments
  for each request, in request order, and only then awaits the scheduler's \<open>schedule\<close>.
  The states the method passes through before the await are: the state after the
  assignment, in which the response is current and no event has been written, and then,
  after the round of the loop for request number \<open>k\<close>, the state with the response current
  and the events of the first \<open>k\<close> requests. The scheduler's \<open>schedule\<close> runs on the last of
  these states, with the delegation logged, so the callbacks it fires find the response
  current and the events written; and the outcome of the method is the outcome of
  \<open>schedule\<close>, its rejection included.
\<close>

theorem scheduleToolCalls_order:
  assumes "toolScheduler \<sigma> = Some sch"
  shows "scheduleToolCalls code reqs sig res \<sigma> =
           schedule code reqs sig
             (\<sigma>\<lparr>currentResponse := Some res,
                effects := effects \<sigma> @
                  map (\<lambda>req. SendToolCallEvent res (callId req) (name req) (args req)) reqs @
                  [SchedulerSchedule reqs sig]\<rparr>) \<and>
         length (scheduleToolCallsStates reqs res \<sigma>) = Suc (length reqs) \<and>
         (\<forall>k \<le> length reqs.
            scheduleToolCallsStates reqs res \<sigma> ! k =
              \<sigma>\<lparr>currentResponse := Some res,
                effects := effects \<sigma> @
                  map (\<lambda>req. SendToolCallEvent res (callId req) (name req) (args req))
                    (take k reqs)\<rparr>) \<and>
         scheduleToolCalls code reqs sig res \<sigma> =
           schedule code reqs sig
             (emit (SchedulerSchedule reqs sig) (last (scheduleToolCallsStates reqs res \<sigma>)))"
proof -
  have run: "scheduleToolCalls code reqs sig res \<sigma> =
           schedule code reqs sig
             (\<sigma>\<lparr>currentResponse := Some res,
                effects := effects \<sigma> @
                  map (\<lambda>req. SendToolCallEvent res (callId req) (name req) (args req)) reqs @
                  [SchedulerSchedule reqs sig]\<rparr>)"
    using assms by (simp add: scheduleToolCalls_def sendToolCallEvents_eq emit_def)
  have len: "length (scheduleToolCallsStates reqs res \<sigma>) = Suc (length reqs)"
    using assms by (simp add: scheduleToolCallsStates_def)
  have nth: "scheduleToolCallsStates reqs res \<sigma> ! k =
              \<sigma>\<lparr>currentResponse := Some res,
                effects := effects \<sigma> @
                  map (\<lambda>req. SendToolCallEvent res (callId req) (name req) (args req))
                    (take k reqs)\<rparr>"
    if "k \<le> length reqs" for k
  proof (cases k)
    case 0
    with assms show ?thesis by (simp add: scheduleToolCallsStates_def)
  next
    case (Suc j)
    with that have "j < length reqs" by simp
    from sendToolCallEventsStates_nth [OF this, of res "\<sigma>\<lparr>currentResponse := Some res\<rparr>"]
      assms Suc
    show ?thesis by (simp add: scheduleToolCallsStates_def)
  qed
  have final: "scheduleToolCalls code reqs sig res \<sigma> =
           schedule code reqs sig
             (emit (SchedulerSchedule reqs sig) (last (scheduleToolCallsStates reqs res \<sigma>)))"
    using assms sendToolCallEventsStates_last [of "\<sigma>\<lparr>currentResponse := Some res\<rparr>" res reqs]
    by (simp add: scheduleToolCalls_def scheduleToolCallsStates_def)
  from run len nth final show ?thesis by blast
qed

theorem scheduleToolCalls_order_witness:
  "toolScheduler (initializeScheduler newToolOrchestrator) = Some \<lparr>toolCalls = []\<rparr> \<and>
   scheduleToolCalls approvalScheduler [requestA, requestB] 0 1
       (initializeScheduler newToolOrchestrator) =
     (Inr (),
      \<lparr>toolScheduler =
         Some \<lparr>toolCalls = [toolCallOf requestA awaiting_approval,
                             toolCallOf requestB awaiting_approval]\<rparr>,
       currentResponse = Some 1, toolCompletionCallback = None,
       sentConfirmationEvents = {''a'', ''b''},
       effects =
         [SendToolCallEvent 1 ''a'' ''list_dir'' None,
          SendToolCallEvent 1 ''b'' ''exec'' (Some [(''command'', JString ''rm -rf /'')]),
          SchedulerSchedule [requestA, requestB] 0,
          SendToolConfirmationEvent 1 ''a'' ''list_dir'' None None,
          SendToolConfirmationEvent 1 ''b'' ''exec'' (Some ''rm -rf /'')
            (Some [(''command'', JString ''rm -rf /'')])]\<rparr>) \<and>
   scheduleToolCalls rejectingScheduler [requestA, requestB] 0 1
       (initializeScheduler newToolOrchestrator) =
     (Inl (Error ''tool registry unavailable''),
      \<lparr>toolScheduler = Some \<lparr>toolCalls = []\<rparr>, currentResponse = Some 1,
       toolCompletionCallback = None, sentConfirmationEvents = {},
       effects =
         [SendToolCallEvent 1 ''a'' ''list_dir'' None,
          SendToolCallEvent 1 ''b'' ''exec'' (Some [(''command'', JString ''rm -rf /'')]),
          SchedulerSchedule [requestA, requestB] 0]\<rparr>) \<and>
   (0::nat) \<le> length [requestA, requestB] \<and>
   scheduleToolCallsStates [requestA, requestB] 1 (initializeScheduler newToolOrchestrator) ! 0 =
     \<lparr>toolScheduler = Some \<lparr>toolCalls = []\<rparr>, currentResponse = Some 1,
      toolCompletionCallback = None, sentConfirmationEvents = {}, effects = []\<rparr> \<and>
   (1::nat) \<le> length [requestA, requestB] \<and>
   scheduleToolCallsStates [requestA, requestB] 1 (initializeScheduler newToolOrchestrator) ! 1 =
     \<lparr>toolScheduler = Some \<lparr>toolCalls = []\<rparr>, currentResponse = Some 1,
      toolCompletionCallback = None, sentConfirmationEvents = {},
      effects = [SendToolCallEvent 1 ''a'' ''list_dir'' None]\<rparr>"
proof -
  have h: "toolScheduler (initializeScheduler newToolOrchestrator) = Some \<lparr>toolCalls = []\<rparr>"
    by (simp add: initializeScheduler_def)
  note w1 = scheduleToolCalls_order
      [OF h, where code = approvalScheduler and reqs = "[requestA, requestB]" and sig = 0
         and res = 1]
  note w2 = scheduleToolCalls_order
      [OF h, where code = rejectingScheduler and reqs = "[requestA, requestB]" and sig = 0
         and res = 1]
  have first: "scheduleToolCalls approvalScheduler [requestA, requestB] 0 1
       (initializeScheduler newToolOrchestrator) =
     (Inr (),
      \<lparr>toolScheduler =
         Some \<lparr>toolCalls = [toolCallOf requestA awaiting_approval,
                             toolCallOf requestB awaiting_approval]\<rparr>,
       currentResponse = Some 1, toolCompletionCallback = None,
       sentConfirmationEvents = {''a'', ''b''},
       effects =
         [SendToolCallEvent 1 ''a'' ''list_dir'' None,
          SendToolCallEvent 1 ''b'' ''exec'' (Some [(''command'', JString ''rm -rf /'')]),
          SchedulerSchedule [requestA, requestB] 0,
          SendToolConfirmationEvent 1 ''a'' ''list_dir'' None None,
          SendToolConfirmationEvent 1 ''b'' ''exec'' (Some ''rm -rf /'')
            (Some [(''command'', JString ''rm -rf /'')])]\<rparr>)"
    using w1
    by (auto simp: approvalScheduler_def handleToolCallsUpdate_def updateToolCall_def
        emit_def commandOf_def initializeScheduler_def newToolOrchestrator_def
        toolCallOf_def requestA_def requestB_def)
  have second: "scheduleToolCalls rejectingScheduler [requestA, requestB] 0 1
       (initializeScheduler newToolOrchestrator) =
     (Inl (Error ''tool registry unavailable''),
      \<lparr>toolScheduler = Some \<lparr>toolCalls = []\<rparr>, currentResponse = Some 1,
       toolCompletionCallback = None, sentConfirmationEvents = {},
       effects =
         [SendToolCallEvent 1 ''a'' ''list_dir'' None,
          SendToolCallEvent 1 ''b'' ''exec'' (Some [(''command'', JString ''rm -rf /'')]),
          SchedulerSchedule [requestA, requestB] 0]\<rparr>)"
    using w2
    by (simp add: rejectingScheduler_def initializeScheduler_def newToolOrchestrator_def
        requestA_def requestB_def)
  from w1 have states: "\<forall>k \<le> length [requestA, requestB].
      scheduleToolCallsStates [requestA, requestB] 1 (initializeScheduler newToolOrchestrator) ! k =
        (initializeScheduler newToolOrchestrator)
          \<lparr>currentResponse := Some 1,
           effects := effects (initializeScheduler newToolOrchestrator) @
             map (\<lambda>req. SendToolCallEvent 1 (callId req) (name req) (args req))
               (take k [requestA, requestB])\<rparr>"
    by blast
  from states have s0: "scheduleToolCallsStates [requestA, requestB] 1
        (initializeScheduler newToolOrchestrator) ! 0 =
     \<lparr>toolScheduler = Some \<lparr>toolCalls = []\<rparr>, currentResponse = Some 1,
      toolCompletionCallback = None, sentConfirmationEvents = {}, effects = []\<rparr>"
    by (simp add: initializeScheduler_def newToolOrchestrator_def)
  from states have s1: "scheduleToolCallsStates [requestA, requestB] 1
        (initializeScheduler newToolOrchestrator) ! 1 =
     \<lparr>toolScheduler = Some \<lparr>toolCalls = []\<rparr>, currentResponse = Some 1,
      toolCompletionCallback = None, sentConfirmationEvents = {},
      effects = [SendToolCallEvent 1 ''a'' ''list_dir'' None]\<rparr>"
    by (simp add: initializeScheduler_def newToolOrchestrator_def requestA_def)
  from h first second s0 s1 show ?thesis by simp
qed

text \<open>
  Claim C9. The single-request entry point \<open>scheduleToolCall\<close> behaves exactly as the batch
  entry point \<open>scheduleToolCalls\<close> on the singleton list of that request, for every request,
  signal, response, state and scheduler: it fails without any effect when no scheduler
  exists, and otherwise makes the response current, writes the one "tool call" event and
  awaits the scheduler's \<open>schedule\<close> on the singleton batch, whose outcome it returns.
\<close>

theorem scheduleToolCall_singleton_batch:
  "scheduleToolCall code req sig res \<sigma> = scheduleToolCalls code [req] sig res \<sigma> \<and>
   scheduleToolCall code req sig res \<sigma> =
     (case toolScheduler \<sigma> of
        None \<Rightarrow> (Inl (Error ''Tool scheduler not initialized''), \<sigma>)
      | Some sch \<Rightarrow>
          schedule code [req] sig
            (\<sigma>\<lparr>currentResponse := Some res,
               effects := effects \<sigma> @
                 [SendToolCallEvent res (callId req) (name req) (args req),
                  SchedulerSchedule [req] sig]\<rparr>))"
  by (simp add: scheduleToolCall_def scheduleToolCalls_def notInitialized_def emit_def
      split: option.splits)

text \<open>
  Claim C10. \<open>cancelAllOperations\<close> changes nothing but the status of the calls that await
  approval or execute: a call in any other status (validating, success, error, cancelled)
  is left exactly as it was, so a validating call stays validating; a call that is
  cancelled differs from its former self in the status field only; and the completion
  callback and the log are untouched.
\<close>

theorem cancelAll_frame:
  "(\<forall>i < length (liveCalls \<sigma>).
      (status (liveCalls \<sigma> ! i) \<noteq> awaiting_approval \<and> status (liveCalls \<sigma> ! i) \<noteq> executing
         \<longrightarrow> liveCalls (cancelAllOperations \<sigma>) ! i = liveCalls \<sigma> ! i) \<and>
      (status (liveCalls \<sigma> ! i) = validating
         \<longrightarrow> status (liveCalls (cancelAllOperations \<sigma>) ! i) = validating) \<and>
      (liveCalls (cancelAllOperations \<sigma>) ! i)\<lparr>status := s\<rparr> = (liveCalls \<sigma> ! i)\<lparr>status := s\<rparr>) \<and>
   length (liveCalls (cancelAllOperations \<sigma>)) = length (liveCalls \<sigma>) \<and>
   toolCompletionCallback (cancelAllOperations \<sigma>) = toolCompletionCallback \<sigma> \<and>
   effects (cancelAllOperations \<sigma>) = effects \<sigma>"
proof -
  have "toolCompletionCallback (cancelAllOperations \<sigma>) = toolCompletionCallback \<sigma>"
    and "effects (cancelAllOperations \<sigma>) = effects \<sigma>"
    by (simp_all add: cancelAllOperations_def clearCurrentResponse_def split: option.splits)
  then show ?thesis
    by (simp add: liveCalls_cancelAll cancelToolCalls_nth)
qed

theorem cancelAll_frame_witness:
  "(0::nat) < length (liveCalls (orchestratorWith
       [toolCallOf requestA validating, toolCallOf requestB awaiting_approval])) \<and>
   status (liveCalls (orchestratorWith
       [toolCallOf requestA validating, toolCallOf requestB awaiting_approval]) ! 0) = validating \<and>
   liveCalls (cancelAllOperations (orchestratorWith
       [toolCallOf requestA validating, toolCallOf requestB awaiting_approval])) ! 0 =
     toolCallOf requestA validating \<and>
   (liveCalls (cancelAllOperations (orchestratorWith
       [toolCallOf requestA validating, toolCallOf requestB awaiting_approval])) ! 1)
      \<lparr>status := awaiting_approval\<rparr> = toolCallOf requestB awaiting_approval"
  using cancelAll_frame [of "orchestratorWith
       [toolCallOf requestA validating, toolCallOf requestB awaiting_approval]" awaiting_approval]
  by (simp add: liveCalls_def scenario_defs)

end
